theory Spec2Isabelle
  imports Main "HOL-Library.Sublist"
begin

section \<open>Values of the host language\<close>

text \<open>
  A JavaScript \<open>number\<close> as the program uses it: a double whose value is an integer
  (a clock reading in seconds, the result of \<open>parseInt\<close>), one of the two infinities, or
  \<open>NaN\<close>, which \<open>parseInt\<close> returns on a string with no leading digit. \<open>Num n\<close> stands for
  the double of value \<open>n\<close>. The fifth value is \<open>null\<close>, which is what the configuration
  file gives back for a number that JSON cannot write; in a comparison \<open>null\<close> counts as 0.
\<close>

datatype jsnum = Num int | Infinity | NegInfinity | NaN | Null

text \<open>
  The double nearest to an integer: integers below \<open>2^53\<close> in magnitude are doubles; a
  larger one keeps its 53 leading bits, rounded to nearest with ties to the even
  significand, and from \<open>2^1024\<close> on the result is infinite.
\<close>

fun bits :: "nat \<Rightarrow> nat" where
  "bits n = (if n = 0 then 0 else Suc (bits (n div 2)))"

declare bits.simps [simp del]

definition roundNat :: "nat \<Rightarrow> nat" where
  "roundNat m =
     (if m < 2 ^ 53 then m
      else
        (let e = bits m - 53;
             q = m div 2 ^ e;
             r = m mod 2 ^ e;
             half = 2 ^ (e - 1)
         in (if half < r \<or> (r = half \<and> odd q) then q + 1 else q) * 2 ^ e))"

definition toNumber :: "int \<Rightarrow> jsnum" where
  "toNumber i =
     (let m = roundNat (nat \<bar>i\<bar>)
      in if 2 ^ 1024 \<le> m then (if i < 0 then NegInfinity else Infinity)
         else Num (if i < 0 then - int m else int m))"

text \<open>The operand of an arithmetic operator or of a comparison: \<open>null\<close> converts to 0.\<close>

fun numeric :: "jsnum \<Rightarrow> jsnum" where
  "numeric Null = Num 0"
| "numeric x = x"

text \<open>
  The sum of two numbers: for two doubles it is the double nearest to the exact sum.
  \<open>js_add\<close> converts its operands first, so that \<open>add_numeric\<close> never meets \<open>null\<close>.
\<close>

fun add_numeric :: "jsnum \<Rightarrow> jsnum \<Rightarrow> jsnum" where
  "add_numeric (Num a) (Num b) = toNumber (a + b)"
| "add_numeric NaN _ = NaN"
| "add_numeric _ NaN = NaN"
| "add_numeric Infinity NegInfinity = NaN"
| "add_numeric NegInfinity Infinity = NaN"
| "add_numeric Infinity _ = Infinity"
| "add_numeric _ Infinity = Infinity"
| "add_numeric NegInfinity _ = NegInfinity"
| "add_numeric _ NegInfinity = NegInfinity"
| "add_numeric _ _ = NaN"

definition js_add :: "jsnum \<Rightarrow> jsnum \<Rightarrow> jsnum" where
  "js_add a b = add_numeric (numeric a) (numeric b)"

text \<open>\<open>a < b\<close> on numbers; every comparison with \<open>NaN\<close> is false.\<close>

fun less_numeric :: "jsnum \<Rightarrow> jsnum \<Rightarrow> bool" where
  "less_numeric (Num a) (Num b) = (a < b)"
| "less_numeric NegInfinity (Num b) = True"
| "less_numeric NegInfinity Infinity = True"
| "less_numeric (Num a) Infinity = True"
| "less_numeric _ _ = False"

definition isNaN :: "jsnum \<Rightarrow> bool" where
  "isNaN x = (x = NaN)"

definition js_lt :: "jsnum \<Rightarrow> jsnum \<Rightarrow> bool" where
  "js_lt a b = less_numeric (numeric a) (numeric b)"

definition js_gt :: "jsnum \<Rightarrow> jsnum \<Rightarrow> bool" where
  "js_gt a b = less_numeric (numeric b) (numeric a)"

definition js_ge :: "jsnum \<Rightarrow> jsnum \<Rightarrow> bool" where
  "js_ge a b = (\<not> isNaN a \<and> \<not> isNaN b \<and> \<not> less_numeric (numeric a) (numeric b))"

definition js_le :: "jsnum \<Rightarrow> jsnum \<Rightarrow> bool" where
  "js_le a b = (\<not> isNaN a \<and> \<not> isNaN b \<and> \<not> less_numeric (numeric b) (numeric a))"

text \<open>
  An optional string property (\<open>string | undefined\<close>) is a \<open>string option\<close>. It is truthy
  when it is present and not the empty string; \<open>a || b\<close> picks \<open>a\<close> when \<open>a\<close> is truthy.
\<close>

fun truthy :: "string option \<Rightarrow> bool" where
  "truthy None = False"
| "truthy (Some s) = (s \<noteq> [])"

fun js_or :: "string option \<Rightarrow> string option \<Rightarrow> string option" where
  "js_or a b = (if truthy a then a else b)"

fun or_default :: "string option \<Rightarrow> string \<Rightarrow> string" where
  "or_default None d = d"
| "or_default (Some s) d = (if s = [] then d else s)"

text \<open>
  \<open>Math.floor(Date.now() / 1000)\<close>, the clock being read in milliseconds. \<open>Date.now()\<close>
  is an integer of at most \<open>8.64e15\<close> in magnitude, for which the quotient is exact.
\<close>

definition unixSeconds :: "int \<Rightarrow> jsnum" where
  "unixSeconds nowMs = Num (nowMs div 1000)"

text \<open>
  \<open>parseInt(s, 10)\<close>: leading white space is skipped, one sign is read, then the longest
  run of decimal digits; with no digit the result is \<open>NaN\<close>, else the double nearest to the
  integer the digits write, which is infinite once that integer reaches about \<open>1.8e308\<close>
  (309 digits). Characters are 8-bit here, so the white space recognised is the tab, line
  feed, vertical tab, form feed, carriage return, space and no-break space.
\<close>

definition isWhiteSpace :: "char \<Rightarrow> bool" where
  "isWhiteSpace c = (of_char c \<in> {9, 10, 11, 12, 13, 32, 160 :: nat})"

definition isDigit :: "char \<Rightarrow> bool" where
  "isDigit c = (48 \<le> (of_char c :: nat) \<and> (of_char c :: nat) \<le> 57)"

definition digitVal :: "char \<Rightarrow> int" where
  "digitVal c = int (of_char c) - 48"

definition decimalValue :: "string \<Rightarrow> int" where
  "decimalValue ds = foldl (\<lambda>acc c. 10 * acc + digitVal c) 0 ds"

definition parseDigits :: "string \<Rightarrow> int option" where
  "parseDigits s =
     (let ds = takeWhile isDigit s in if ds = [] then None else Some (decimalValue ds))"

definition parseInt :: "string \<Rightarrow> jsnum" where
  "parseInt s =
     (case dropWhile isWhiteSpace s of
        [] \<Rightarrow> NaN
      | c # cs \<Rightarrow>
          if c = CHR ''-''
          then (case parseDigits cs of None \<Rightarrow> NaN | Some n \<Rightarrow> toNumber (- n))
          else if c = CHR ''+''
          then (case parseDigits cs of None \<Rightarrow> NaN | Some n \<Rightarrow> toNumber n)
          else (case parseDigits (c # cs) of None \<Rightarrow> NaN | Some n \<Rightarrow> toNumber n))"

text \<open>\<open>haystack.includes(needle)\<close>: the needle occurs as a contiguous run of characters.\<close>

fun includes_str :: "string \<Rightarrow> string \<Rightarrow> bool" where
  "includes_str [] needle = (needle = [])"
| "includes_str (c # cs) needle = (prefix needle (c # cs) \<or> includes_str cs needle)"

section \<open>Errors\<close>

text \<open>
  The program throws \<open>Error\<close> objects told apart by their message, \<open>ApiError\<close> objects
  (message, status code, response body), and passes on what the platform throws: a
  \<open>TypeError\<close> from \<open>fetch\<close>, or a system error carrying a code such as \<open>EADDRINUSE\<close>.
\<close>

datatype error =
    Error string
  | ApiError string int "string option"
  | TypeError string
  | SystemError string

text \<open>The failures of the authentication module, by the message each one is thrown with.\<close>

definition NotAuthenticated :: error where
  "NotAuthenticated = Error ''Not authenticated. Please run authentication first.''"

definition TokenExpired :: error where
  "TokenExpired = Error ''Access token has expired. Please re-authenticate.''"

definition CallbackTimeout :: error where
  "CallbackTimeout = Error ''OAuth callback timeout after 5 minutes''"

definition AuthUrlMissing :: "string \<Rightarrow> error" where
  "AuthUrlMissing msg = Error (''Failed to generate OAuth URL: '' @ msg)"

definition OAuthProviderError :: "string \<Rightarrow> error" where
  "OAuthProviderError description = Error (''OAuth authentication failed: '' @ description)"

definition MissingTokensInCallback :: error where
  "MissingTokensInCallback = Error ''Missing access_token or refresh_token in OAuth callback''"

definition SessionExchangeFailed :: "string \<Rightarrow> error" where
  "SessionExchangeFailed msg = Error (''Failed to establish session: '' @ msg)"

section \<open>Types and the configuration store\<close>

record user_info =
  email :: string
  user_id :: string

record StoredAuth =
  accessToken :: string
  refreshToken :: string
  expiresAt :: jsnum
  user :: user_info

record AuthStatus =
  authenticated :: bool
  status_email :: "string option"
  status_expiresAt :: "jsnum option"
  isExpired :: bool

record QuiboConfig =
  backendUrl :: string
  supabaseUrl :: string
  supabaseAnonKey :: string
  auth :: "StoredAuth option"

record OAuthCallbackParams =
  access_token :: "string option"
  refresh_token :: "string option"
  expires_in :: "string option"
  token_type :: "string option"
  error :: "string option"
  error_description :: "string option"

text \<open>
  The store is a JSON file holding one configuration object (\<open>config.json\<close>): \<open>set\<close>
  writes the object out and \<open>get\<close> reads it back. JSON writes a finite number as it is and
  \<open>NaN\<close> and the infinities as \<open>null\<close>; strings come back unchanged.
\<close>

fun jsonNumber :: "jsnum \<Rightarrow> jsnum" where
  "jsonNumber (Num n) = Num n"
| "jsonNumber _ = Null"

definition jsonStoredAuth :: "StoredAuth \<Rightarrow> StoredAuth" where
  "jsonStoredAuth a = a\<lparr>expiresAt := jsonNumber (expiresAt a)\<rparr>"

definition getBackendUrl :: "QuiboConfig \<Rightarrow> string" where
  "getBackendUrl store = backendUrl store"

definition setAuth :: "QuiboConfig \<Rightarrow> StoredAuth \<Rightarrow> QuiboConfig" where
  "setAuth store a = store\<lparr>auth := Some (jsonStoredAuth a)\<rparr>"

definition getAuth :: "QuiboConfig \<Rightarrow> StoredAuth option" where
  "getAuth store = auth store"

definition clearAuth :: "QuiboConfig \<Rightarrow> QuiboConfig" where
  "clearAuth store = store\<lparr>auth := None\<rparr>"

section \<open>Token status and access\<close>

definition checkAuth :: "QuiboConfig \<Rightarrow> int \<Rightarrow> AuthStatus" where
  "checkAuth store nowMs =
     (case getAuth store of
        None \<Rightarrow>
          \<lparr>authenticated = False, status_email = None, status_expiresAt = None,
           isExpired = True\<rparr>
      | Some a \<Rightarrow>
          (let now = unixSeconds nowMs;
               expired = js_ge now (expiresAt a)
           in \<lparr>authenticated = \<not> expired, status_email = Some (email (user a)),
               status_expiresAt = Some (expiresAt a), isExpired = expired\<rparr>))"

definition getAccessToken :: "QuiboConfig \<Rightarrow> int \<Rightarrow> error + string" where
  "getAccessToken store nowMs =
     (case getAuth store of
        None \<Rightarrow> Inl NotAuthenticated
      | Some a \<Rightarrow>
          (let now = unixSeconds nowMs
           in if js_ge now (expiresAt a) then Inl TokenExpired else Inr (accessToken a)))"

section \<open>Finding a port\<close>

text \<open>
  \<open>findAvailablePort\<close> binds a throw-away server on \<open>startPort\<close>. The platform answers
  each bind either with the \<open>listening\<close> callback, where \<open>server.address().port\<close> is the
  port bound, or with an \<open>error\<close> event carrying a code. The answers are given by a probe
  function of the port; the recursion on \<open>EADDRINUSE\<close> has no bound of its own, so the
  result is optional and \<open>None\<close> stands for a search that never ends.
\<close>

datatype listen_result = Listening int | ListenError string

partial_function (option) findAvailablePort ::
    "(int \<Rightarrow> listen_result) \<Rightarrow> int \<Rightarrow> (error + int) option" where
  "findAvailablePort probe startPort =
     (case probe startPort of
        Listening port \<Rightarrow> Some (Inr port)
      | ListenError code \<Rightarrow>
          if code = ''EADDRINUSE'' then findAvailablePort probe (startPort + 1)
          else Some (Inl (SystemError code)))"

section \<open>The callback listener\<close>

text \<open>
  \<open>startCallbackServer\<close> returns a promise and registers three handlers: the timer set
  for five minutes, the request handler and the server's \<open>error\<close> handler. The model runs
  the handlers over the sequence of events the platform delivers. A promise is settled by
  the first \<open>resolve\<close> or \<open>reject\<close>; later calls leave it as it is. A request is handed to
  the handler whenever one arrives, also on a connection that outlives \<open>server.close()\<close>.
\<close>

datatype event =
    TimerFires
  | Request "string option" OAuthCallbackParams
  | ServerError error

datatype page = FailedPage string | SuccessPage | NotFoundPage

record listener =
  settled :: "(error + OAuthCallbackParams) option"
  timerArmed :: bool
  serverOpen :: bool
  responses :: "page list"

text \<open>A value interpolated in a template literal: \<open>undefined\<close> prints as its name.\<close>

fun template :: "string option \<Rightarrow> string" where
  "template None = ''undefined''"
| "template (Some s) = s"

definition settle :: "error + OAuthCallbackParams \<Rightarrow> listener \<Rightarrow> listener" where
  "settle outcome l = (if settled l = None then l\<lparr>settled := Some outcome\<rparr> else l)"

fun step :: "listener \<Rightarrow> event \<Rightarrow> listener" where
  "step l TimerFires =
     (if timerArmed l
      then settle (Inl CallbackTimeout) (l\<lparr>timerArmed := False, serverOpen := False\<rparr>)
      else l)"
| "step l (Request pathname params) =
     (if pathname = Some ''/callback''
      then
        (let written =
               (if truthy (error params)
                then FailedPage (template (js_or (error_description params) (error params)))
                else SuccessPage)
         in settle (Inr params)
              (l\<lparr>responses := responses l @ [written], timerArmed := False,
                 serverOpen := False\<rparr>))
      else l\<lparr>responses := responses l @ [NotFoundPage]\<rparr>)"
| "step l (ServerError err) = settle (Inl err) (l\<lparr>timerArmed := False\<rparr>)"

definition listening :: listener where
  "listening = \<lparr>settled = None, timerArmed = True, serverOpen = True, responses = []\<rparr>"

definition startCallbackServer :: "event list \<Rightarrow> (error + OAuthCallbackParams) option" where
  "startCallbackServer events = settled (foldl step listening events)"

section \<open>The login flow\<close>

text \<open>
  What \<open>authenticate\<close> gets from outside: the bind probes, the identity provider's answer
  to \<open>signInWithOAuth\<close> (for the redirect URL \<open>http://localhost:{port}/callback\<close>, given by
  its port) and to \<open>setSession\<close>, the events that reach the callback listener, and the
  clock reading when the session object is built. An error object of the provider is given
  by its message. Opening the browser runs beside the listener and its failure is caught
  and logged, so it has no part in the result; console output is left out.
\<close>

record oauth_result =
  oauth_url :: "string option"
  oauth_error :: "string option"

record supabase_user =
  su_email :: "string option"
  su_id :: string

record session_result =
  session_user :: "supabase_user option"
  session_error :: "string option"

record environment =
  probe :: "int \<Rightarrow> listen_result"
  signInWithOAuth :: "int \<Rightarrow> oauth_result"
  callbackEvents :: "int \<Rightarrow> event list"
  setSession :: "string \<Rightarrow> string \<Rightarrow> session_result"
  clockMs :: int

definition authenticate ::
    "environment \<Rightarrow> QuiboConfig \<Rightarrow> ((error + unit) \<times> QuiboConfig) option" where
  "authenticate env store =
     (case findAvailablePort (probe env) 54321 of
        None \<Rightarrow> None
      | Some (Inl err) \<Rightarrow> Some (Inl err, store)
      | Some (Inr port) \<Rightarrow>
          (let oauth = signInWithOAuth env port in
           if oauth_error oauth \<noteq> None \<or> \<not> truthy (oauth_url oauth)
           then Some (Inl (AuthUrlMissing (or_default (oauth_error oauth) ''Unknown error'')),
                      store)
           else
             (case startCallbackServer (callbackEvents env port) of
                None \<Rightarrow> None
              | Some (Inl err) \<Rightarrow> Some (Inl err, store)
              | Some (Inr callbackParams) \<Rightarrow>
                  if truthy (error callbackParams)
                  then Some (Inl (OAuthProviderError
                                    (template (js_or (error_description callbackParams)
                                                     (error callbackParams)))),
                             store)
                  else
                    (let accessToken = access_token callbackParams;
                         refreshToken = refresh_token callbackParams;
                         expiresIn = parseInt (or_default (expires_in callbackParams) ''3600'')
                     in
                     if \<not> truthy accessToken \<or> \<not> truthy refreshToken
                     then Some (Inl MissingTokensInCallback, store)
                     else
                       (let session = setSession env (the accessToken) (the refreshToken) in
                        if session_error session \<noteq> None \<or> session_user session = None
                        then Some (Inl (SessionExchangeFailed
                                          (or_default (session_error session) ''Unknown error'')),
                                   store)
                        else
                          (let u = the (session_user session);
                               a = \<lparr>accessToken = the accessToken,
                                    refreshToken = the refreshToken,
                                    expiresAt = js_add (unixSeconds (clockMs env)) expiresIn,
                                    user = \<lparr>email = or_default (su_email u) [],
                                             user_id = su_id u\<rparr>\<rparr>
                           in Some (Inr (), setAuth store a)))))))"

section \<open>The API client\<close>

text \<open>
  The second argument of \<open>fetch\<close>: the caller's options, a plain object of headers among
  them. Spreading an absent \<open>headers\<close> property adds nothing.
\<close>

record RequestInit =
  req_method :: "string option"
  req_headers :: "(string \<rightharpoonup> string) option"
  req_body :: "string option"

record response =
  status :: int
  responseText :: string
  contentType :: "string option"

datatype fetch_result = Responded response | Thrown error

text \<open>
  The body of a response is read as text without failure, and \<open>JsonBody t\<close> stands for
  what \<open>response.json()\<close> yields on the text \<open>t\<close>.
\<close>

text \<open>
  What \<open>JSON.parse\<close> makes of an error body, as far as \<open>makeRequest\<close> looks at it:
  \<open>None\<close> when the \<open>try\<close> block around it throws, else the interpolated \<open>detail\<close> and
  \<open>message\<close> properties, each present when truthy.
\<close>

record json_probe =
  detail :: "string option"
  message :: "string option"

record api_environment =
  fetch :: "string \<Rightarrow> RequestInit \<Rightarrow> fetch_result"
  JSON_parse :: "string \<Rightarrow> json_probe option"

datatype payload = JsonBody string | TextBody string

definition spread :: "(string \<rightharpoonup> string) option \<Rightarrow> (string \<rightharpoonup> string)" where
  "spread h = (case h of None \<Rightarrow> Map.empty | Some m \<Rightarrow> m)"

text \<open>
  Property names of an object are compared exactly; the names of HTTP headers, which
  \<open>fetch\<close> makes of them, are matched without regard to the case of ASCII letters.
\<close>

definition lowerAscii :: "char \<Rightarrow> char" where
  "lowerAscii c =
     (case map_of (zip ''ABCDEFGHIJKLMNOPQRSTUVWXYZ'' ''abcdefghijklmnopqrstuvwxyz'') c of
        Some l \<Rightarrow> l
      | None \<Rightarrow> c)"

definition sameHeaderName :: "string \<Rightarrow> string \<Rightarrow> bool" where
  "sameHeaderName a b = (map lowerAscii a = map lowerAscii b)"

text \<open>The object literal passed to \<open>fetch\<close>: later properties replace earlier ones.\<close>

definition requestInit :: "string \<Rightarrow> RequestInit \<Rightarrow> RequestInit" where
  "requestInit token options =
     options\<lparr>req_headers :=
       Some ([''Authorization'' \<mapsto> ''Bearer '' @ token] ++ spread (req_headers options))\<rparr>"

text \<open>The resource name chosen for a 404, by the first pattern the endpoint contains.\<close>

definition resourceName :: "string \<Rightarrow> string" where
  "resourceName endpoint =
     (if includes_str endpoint ''/projects/'' then ''Project''
      else if includes_str endpoint ''/outline/'' then ''Outline''
      else if includes_str endpoint ''/section/'' then ''Section''
      else ''Resource'')"

definition responseOk :: "response \<Rightarrow> bool" where
  "responseOk r = (200 \<le> status r \<and> status r \<le> 299)"

fun showNat :: "nat \<Rightarrow> string" where
  "showNat n =
     (if n < 10 then [''0123456789'' ! n]
      else showNat (n div 10) @ [''0123456789'' ! (n mod 10)])"

definition showInt :: "int \<Rightarrow> string" where
  "showInt i = (if i < 0 then CHR ''-'' # showNat (nat (- i)) else showNat (nat i))"

text \<open>The \<open>catch\<close> clause of \<open>makeRequest\<close>.\<close>

definition rethrow :: "string \<Rightarrow> error \<Rightarrow> error" where
  "rethrow backend err =
     (case err of
        ApiError m s b \<Rightarrow> err
      | TypeError m \<Rightarrow>
          if includes_str m ''fetch''
          then Error (''Failed to connect to Quibo backend at '' @ backend
                      @ ''. Please check your network connection and backend URL.'')
          else err
      | _ \<Rightarrow> err)"

definition makeRequest ::
    "api_environment \<Rightarrow> QuiboConfig \<Rightarrow> int \<Rightarrow> string \<Rightarrow> RequestInit \<Rightarrow> error + payload" where
  "makeRequest env store nowMs endpoint options =
     (let backend = getBackendUrl store;
          url = backend @ endpoint
      in case getAccessToken store nowMs of
           Inl err \<Rightarrow> Inl (rethrow backend err)
         | Inr token \<Rightarrow>
             (case fetch env url (requestInit token options) of
                Thrown err \<Rightarrow> Inl (rethrow backend err)
              | Responded r \<Rightarrow>
                  if status r = 401
                  then Inl (rethrow backend (ApiError
                         ''Your session has expired. Please re-authenticate using the authenticate tool.''
                         401 None))
                  else if status r = 404
                  then
                    (let text = responseText r
                     in Inl (rethrow backend (ApiError
                          (resourceName endpoint @ '' not found. ''
                           @ (if text = [] then ''The requested resource does not exist.''
                              else text))
                          404 (Some text))))
                  else if \<not> responseOk r
                  then
                    (let text = responseText r;
                         errorMessage = ''API request failed with status '' @ showInt (status r);
                         appended =
                           (case JSON_parse env text of
                              Some json \<Rightarrow>
                                if truthy (detail json) then '': '' @ template (detail json)
                                else if truthy (message json) then '': '' @ template (message json)
                                else []
                            | None \<Rightarrow> if text \<noteq> [] then '': '' @ text else [])
                     in Inl (rethrow backend (ApiError (errorMessage @ appended) (status r)
                                                (Some text))))
                  else
                    (case contentType r of
                       None \<Rightarrow> Inr (TextBody (responseText r))
                     | Some ct \<Rightarrow>
                         if includes_str ct ''application/json''
                         then Inr (JsonBody (responseText r))
                         else Inr (TextBody (responseText r)))))"

subsection \<open>Endpoints of the client's own calls\<close>

text \<open>
  The percent-encodings of the platform, on strings of 8-bit characters:
  \<open>URLSearchParams\<close> keeps letters, digits and \<open>*-._\<close>, writes a space as \<open>+\<close> and
  escapes every other character; \<open>encodeURIComponent\<close> keeps letters, digits and
  \<open>-_.!~*'()\<close>.
\<close>

definition isAlnum :: "char \<Rightarrow> bool" where
  "isAlnum c =
     (let n = (of_char c :: nat)
      in (48 \<le> n \<and> n \<le> 57) \<or> (65 \<le> n \<and> n \<le> 90) \<or> (97 \<le> n \<and> n \<le> 122))"

definition percent :: "char \<Rightarrow> string" where
  "percent c =
     [CHR ''%'', ''0123456789ABCDEF'' ! ((of_char c :: nat) div 16),
      ''0123456789ABCDEF'' ! ((of_char c :: nat) mod 16)]"

definition formUrlEncode :: "string \<Rightarrow> string" where
  "formUrlEncode s =
     concat (map (\<lambda>c. if c = CHR '' '' then ''+''
                      else if isAlnum c \<or> c \<in> set ''*-._'' then [c]
                      else percent c) s)"

definition encodeURIComponent :: "string \<Rightarrow> string" where
  "encodeURIComponent s =
     concat (map (\<lambda>c. if isAlnum c \<or> c \<in> set (''-_.!~*()'' @ [CHR 0x27]) then [c]
                      else percent c) s)"

fun searchParamsToString :: "(string \<times> string) list \<Rightarrow> string" where
  "searchParamsToString [] = []"
| "searchParamsToString [(k, v)] = formUrlEncode k @ ''='' @ formUrlEncode v"
| "searchParamsToString ((k, v) # rest) =
     formUrlEncode k @ ''='' @ formUrlEncode v @ ''&'' @ searchParamsToString rest"

definition noOptions :: RequestInit where
  "noOptions = \<lparr>req_method = None, req_headers = None, req_body = None\<rparr>"

definition listProjects_endpoint :: "string option \<Rightarrow> string" where
  "listProjects_endpoint st =
     (let params = (if truthy st then [(''status'', the st)] else []);
          queryString = searchParamsToString params
      in if queryString \<noteq> [] then ''/projects?'' @ queryString else ''/projects'')"

definition listProjects ::
    "api_environment \<Rightarrow> QuiboConfig \<Rightarrow> int \<Rightarrow> string option \<Rightarrow> error + payload" where
  "listProjects env store nowMs st =
     makeRequest env store nowMs (listProjects_endpoint st) noOptions"

definition regenerateOutline_endpoint :: "string \<Rightarrow> string" where
  "regenerateOutline_endpoint projectName =
     ''/api/v2/projects/'' @ encodeURIComponent projectName @ ''/outline/regenerate''"

text \<open>The request body is the JSON text of the feedback and the focus area.\<close>

definition regenerateOutline ::
    "api_environment \<Rightarrow> QuiboConfig \<Rightarrow> int \<Rightarrow> string \<Rightarrow> string \<Rightarrow> error + payload" where
  "regenerateOutline env store nowMs projectName bodyText =
     makeRequest env store nowMs (regenerateOutline_endpoint projectName)
       \<lparr>req_method = Some ''POST'',
        req_headers = Some [''Content-Type'' \<mapsto> ''application/json''],
        req_body = Some bodyText\<rparr>"

section \<open>Sample data\<close>

definition exampleStore :: QuiboConfig where
  "exampleStore = \<lparr>backendUrl = ''http://localhost:8000'', supabaseUrl = ''https://idp.example'',
                      supabaseAnonKey = ''anon'', auth = None\<rparr>"

definition exampleSession :: "jsnum \<Rightarrow> StoredAuth" where
  "exampleSession e = \<lparr>accessToken = ''a'', refreshToken = ''b'', expiresAt = e,
                        user = \<lparr>email = ''user@example.org'', user_id = ''u1''\<rparr>\<rparr>"

definition exampleParams :: "string option \<Rightarrow> OAuthCallbackParams" where
  "exampleParams e = \<lparr>access_token = Some ''a'', refresh_token = Some ''b'', expires_in = e,
                       token_type = Some ''bearer'', error = None, error_description = None\<rparr>"

definition exampleEnv :: "event list \<Rightarrow> environment" where
  "exampleEnv events =
     \<lparr>probe = Listening,
      signInWithOAuth = (\<lambda>port. \<lparr>oauth_url = Some ''https://idp.example/authorize'',
                                 oauth_error = None\<rparr>),
      callbackEvents = (\<lambda>port. events),
      setSession = (\<lambda>a r. \<lparr>session_user = Some \<lparr>su_email = Some ''user@example.org'',
                                                    su_id = ''u1''\<rparr>,
                             session_error = None\<rparr>),
      clockMs = 1700000000000\<rparr>"

definition exampleApiEnv :: "response \<Rightarrow> api_environment" where
  "exampleApiEnv r = \<lparr>fetch = (\<lambda>url init. Responded r), JSON_parse = (\<lambda>text. None)\<rparr>"

definition exampleResponse :: "string \<Rightarrow> response" where
  "exampleResponse text = \<lparr>status = 404, responseText = text, contentType = None\<rparr>"

definition exampleLoggedIn :: QuiboConfig where
  "exampleLoggedIn = setAuth exampleStore (exampleSession (Num 1700003600))"

section \<open>Numbers\<close>

lemmas js_eval =
  js_ge_def js_gt_def js_lt_def js_le_def isNaN_def js_add_def jsonStoredAuth_def

lemma js_gt_not_ge: "js_gt e n \<Longrightarrow> \<not> js_ge n e"
  by (simp add: js_gt_def js_ge_def)

lemma js_le_ge: "js_le e n \<Longrightarrow> js_ge n e"
  by (simp add: js_le_def js_ge_def)

lemma js_lt_iff_not_ge: "e \<noteq> NaN \<Longrightarrow> n \<noteq> NaN \<Longrightarrow> js_lt n e = (\<not> js_ge n e)"
  by (cases e; cases n) (auto simp: js_lt_def js_ge_def isNaN_def)

lemma toNumber_exact: "\<bar>i\<bar> < 2 ^ 53 \<Longrightarrow> toNumber i = Num i"
proof -
  assume small: "\<bar>i\<bar> < 2 ^ 53"
  then have "nat \<bar>i\<bar> < 2 ^ 53"
    by (simp add: nat_less_iff)
  then have r: "roundNat (nat \<bar>i\<bar>) = nat \<bar>i\<bar>"
    by (simp add: roundNat_def)
  have "nat \<bar>i\<bar> < (2 :: nat) ^ 1024"
    using \<open>nat \<bar>i\<bar> < 2 ^ 53\<close> by (rule less_trans) simp
  then show ?thesis
    by (simp add: toNumber_def r Let_def)
qed

lemma toNumber_negative:
  "i < 0 \<Longrightarrow> toNumber i = NegInfinity \<or> (\<exists>k\<le>0. toNumber i = Num k)"
  by (simp add: toNumber_def Let_def)

lemma toNumber_not_NaN: "toNumber i \<noteq> NaN \<and> toNumber i \<noteq> Null"
  by (simp add: toNumber_def Let_def)

lemma stored_expiresAt_not_NaN:
  "getAuth (setAuth store a) = Some a' \<Longrightarrow> expiresAt a' \<noteq> NaN"
  by (cases "expiresAt a") (auto simp: getAuth_def setAuth_def jsonStoredAuth_def)

lemma bits_bounds: "0 < m \<Longrightarrow> 2 ^ (bits m - 1) \<le> m \<and> m < 2 ^ bits m"
proof (induction m rule: bits.induct)
  case (1 n)
  show ?case
  proof (cases "n div 2 = 0")
    case True
    with "1.prems" have "n = 1" by presburger
    then show ?thesis by (simp add: bits.simps)
  next
    case False
    then have h: "0 < n div 2" by simp
    from "1.prems" have n0: "n \<noteq> 0" by simp
    have b: "bits n = Suc (bits (n div 2))"
      using n0 by (subst bits.simps) simp
    have pos: "0 < bits (n div 2)"
      using h by (subst bits.simps) simp
    from "1.IH" [OF n0 h]
    have lo: "2 ^ (bits (n div 2) - 1) \<le> n div 2" and hi: "n div 2 < 2 ^ bits (n div 2)"
      by simp_all
    have "(2 :: nat) ^ bits (n div 2) = 2 * 2 ^ (bits (n div 2) - 1)"
      using pos by (cases "bits (n div 2)") simp_all
    then have "2 ^ bits (n div 2) \<le> 2 * (n div 2)"
      using lo by simp
    also have "\<dots> \<le> n" by simp
    finally have l: "2 ^ (bits n - 1) \<le> n"
      unfolding b by simp
    have "n < 2 * (n div 2) + 2" by presburger
    also have "\<dots> \<le> 2 * 2 ^ bits (n div 2)"
      using hi by simp
    finally have u: "n < 2 ^ bits n"
      unfolding b by simp
    from l u show ?thesis by (rule conjI)
  qed
qed

lemma roundNat_ge_pow:
  assumes big: "2 ^ k \<le> m" and k: "53 \<le> k"
  shows "2 ^ k \<le> roundNat m"
proof -
  have m53: "(2 :: nat) ^ 53 \<le> m"
    using power_increasing [OF k, of "2 :: nat"] big by simp
  then have mpos: "0 < m"
    by (simp add: less_le_trans [of 0 "2 ^ 53"])
  define e where "e = bits m - 53"
  define q where "q = m div 2 ^ e"
  have lo: "2 ^ (bits m - 1) \<le> m" and hi: "m < 2 ^ bits m"
    using bits_bounds [OF mpos] by simp_all
  have "(2 :: nat) ^ k < 2 ^ bits m"
    using big hi by (rule le_less_trans)
  then have kb: "k < bits m"
    by (simp add: power_strict_increasing_iff)
  then have split: "bits m - 1 = 52 + e"
    using k by (simp add: e_def)
  have p: "(2 :: nat) ^ (bits m - 1) = 2 ^ 52 * 2 ^ e"
    by (simp only: split power_add)
  have "(2 :: nat) ^ 52 = (2 ^ 52 * 2 ^ e) div 2 ^ e"
    by simp
  also have "\<dots> \<le> q"
    unfolding q_def using lo unfolding p by (rule div_le_mono)
  finally have q52: "2 ^ 52 \<le> q" .
  have "(2 :: nat) ^ k \<le> 2 ^ (bits m - 1)"
    using kb by (intro power_increasing) simp_all
  also have "\<dots> = 2 ^ 52 * 2 ^ e"
    by (rule p)
  also have "\<dots> \<le> q * 2 ^ e"
    using q52 by simp
  also have "\<dots> \<le> roundNat m"
    using m53 by (simp add: roundNat_def Let_def e_def [symmetric] q_def [symmetric])
  finally show ?thesis .
qed

lemma toNumber_huge: "2 ^ 1024 \<le> i \<Longrightarrow> toNumber i = Infinity"
proof -
  assume h: "2 ^ 1024 \<le> i"
  then have "(2 :: nat) ^ 1024 \<le> nat \<bar>i\<bar>"
    by (simp add: le_nat_iff)
  then have "2 ^ 1024 \<le> roundNat (nat \<bar>i\<bar>)"
    by (rule roundNat_ge_pow) simp
  moreover have "\<not> i < 0"
    using h by (simp add: not_less order_trans [of 0 "2 ^ 1024"])
  ultimately show ?thesis
    by (simp add: toNumber_def Let_def)
qed

section \<open>Token access\<close>

text \<open>
  Claim C1. \<open>getAccessToken\<close> fails with \<open>NotAuthenticated\<close> when the store holds no
  session, fails with \<open>TokenExpired\<close> when \<open>now >= expiresAt\<close>, and in every other case
  returns the stored access token as it is; in particular it returns the token whenever
  \<open>expiresAt > now\<close>. The two failures are different errors.
\<close>

theorem getAccessToken_cases:
  "(getAuth store = None \<longrightarrow> getAccessToken store nowMs = Inl NotAuthenticated)
   \<and> (\<forall>a. getAuth store = Some a \<and> js_ge (unixSeconds nowMs) (expiresAt a)
          \<longrightarrow> getAccessToken store nowMs = Inl TokenExpired)
   \<and> (\<forall>a. getAuth store = Some a \<and> \<not> js_ge (unixSeconds nowMs) (expiresAt a)
          \<longrightarrow> getAccessToken store nowMs = Inr (accessToken a))
   \<and> (\<forall>a. getAuth store = Some a \<and> js_gt (expiresAt a) (unixSeconds nowMs)
          \<longrightarrow> getAccessToken store nowMs = Inr (accessToken a))
   \<and> NotAuthenticated \<noteq> TokenExpired"
  by (auto simp: getAccessToken_def NotAuthenticated_def TokenExpired_def dest: js_gt_not_ge)

theorem getAccessToken_cases_witness:
  "getAccessToken exampleStore 1700000000000 = Inl NotAuthenticated
   \<and> getAccessToken (setAuth exampleStore (exampleSession (Num 1700000000))) 1700000000999
       = Inl TokenExpired
   \<and> getAccessToken (setAuth exampleStore (exampleSession (Num 1700000001))) 1700000000999
       = Inr ''a''
   \<and> getAccessToken (setAuth exampleStore (exampleSession (Num 1700003600))) 1700000000999
       = Inr ''a''"
  using getAccessToken_cases [of exampleStore 1700000000000, THEN conjunct1]
    getAccessToken_cases
      [of "setAuth exampleStore (exampleSession (Num 1700000000))" 1700000000999,
       THEN conjunct2, THEN conjunct1]
    getAccessToken_cases
      [of "setAuth exampleStore (exampleSession (Num 1700000001))" 1700000000999,
       THEN conjunct2, THEN conjunct2, THEN conjunct1]
    getAccessToken_cases
      [of "setAuth exampleStore (exampleSession (Num 1700003600))" 1700000000999,
       THEN conjunct2, THEN conjunct2, THEN conjunct2, THEN conjunct1]
  by (simp add: getAuth_def setAuth_def exampleStore_def exampleSession_def unixSeconds_def js_eval)

section \<open>Token status\<close>

text \<open>
  Claim C6. \<open>checkAuth\<close> depends on the stored session and the clock only. With no session
  it reports \<open>authenticated = false\<close> and \<open>isExpired = true\<close>. For a session with
  \<open>expiresAt <= now\<close> it reports \<open>authenticated = false\<close> and \<open>isExpired = true\<close>; for a
  session with \<open>expiresAt > now\<close> it reports \<open>authenticated = true\<close>. For every session
  whose \<open>expiresAt\<close> is a timestamp, that is a number and not \<open>NaN\<close>, \<open>authenticated\<close> is
  \<open>now < expiresAt\<close>.
\<close>

theorem checkAuth_status:
  "(getAuth store = None \<longrightarrow>
      \<not> authenticated (checkAuth store nowMs) \<and> isExpired (checkAuth store nowMs)
      \<and> status_email (checkAuth store nowMs) = None)
   \<and> (\<forall>a. getAuth store = Some a \<and> js_le (expiresAt a) (unixSeconds nowMs) \<longrightarrow>
          \<not> authenticated (checkAuth store nowMs) \<and> isExpired (checkAuth store nowMs))
   \<and> (\<forall>a. getAuth store = Some a \<and> js_gt (expiresAt a) (unixSeconds nowMs) \<longrightarrow>
          authenticated (checkAuth store nowMs) \<and> \<not> isExpired (checkAuth store nowMs))
   \<and> (\<forall>a. getAuth store = Some a \<and> expiresAt a \<noteq> NaN \<longrightarrow>
          authenticated (checkAuth store nowMs) = js_lt (unixSeconds nowMs) (expiresAt a))
   \<and> (\<forall>store'. getAuth store' = getAuth store \<longrightarrow>
          checkAuth store' nowMs = checkAuth store nowMs)"
proof (intro conjI allI impI)
  fix a assume "getAuth store = Some a \<and> expiresAt a \<noteq> NaN"
  then show "authenticated (checkAuth store nowMs) = js_lt (unixSeconds nowMs) (expiresAt a)"
    by (simp add: checkAuth_def Let_def js_lt_iff_not_ge unixSeconds_def js_eval)
qed (auto simp: checkAuth_def Let_def dest: js_gt_not_ge js_le_ge)

theorem checkAuth_status_witness:
  "\<not> authenticated (checkAuth exampleStore 1700000000000)
   \<and> isExpired (checkAuth exampleStore 1700000000000)
   \<and> \<not> authenticated (checkAuth (setAuth exampleStore (exampleSession (Num 1700000000)))
                                 1700000000999)
   \<and> isExpired (checkAuth (setAuth exampleStore (exampleSession (Num 1700000000)))
                           1700000000999)
   \<and> authenticated (checkAuth (setAuth exampleStore (exampleSession (Num 1700000001)))
                               1700000000999)
   \<and> authenticated (checkAuth (setAuth exampleStore (exampleSession (Num 1700003600)))
                               1700000000999)
       = js_lt (Num 1700000000) (Num 1700003600)"
  using checkAuth_status [of exampleStore 1700000000000, THEN conjunct1]
    checkAuth_status [of "setAuth exampleStore (exampleSession (Num 1700000000))" 1700000000999,
      THEN conjunct2, THEN conjunct1]
    checkAuth_status [of "setAuth exampleStore (exampleSession (Num 1700000001))" 1700000000999,
      THEN conjunct2, THEN conjunct2, THEN conjunct1]
    checkAuth_status [of "setAuth exampleStore (exampleSession (Num 1700003600))" 1700000000999,
      THEN conjunct2, THEN conjunct2, THEN conjunct2, THEN conjunct1]
  by (simp add: getAuth_def setAuth_def exampleStore_def exampleSession_def unixSeconds_def js_eval)

text \<open>
  \<open>NaN\<close> is not a timestamp, and the store never gives one back
  (\<open>stored_expiresAt_not_NaN\<close>). On an \<open>expiresAt\<close> that is \<open>NaN\<close> the test
  \<open>now >= expiresAt\<close> is false, so such a record would count as not expired.
\<close>

lemma checkAuth_NaN:
  "getAuth store = Some a \<Longrightarrow> expiresAt a = NaN \<Longrightarrow> authenticated (checkAuth store nowMs)"
  by (simp add: checkAuth_def Let_def unixSeconds_def js_eval)

section \<open>Port search\<close>

text \<open>
  Claim C2. If the binds on ports \<open>P, ..., P+N-1\<close> each fail with \<open>EADDRINUSE\<close> and the
  bind on \<open>P+N\<close> succeeds, \<open>findAvailablePort P\<close> returns \<open>P+N\<close>; if the bind on \<open>P+N\<close>
  fails with any other code, the search ends and that error is what the caller gets.
\<close>

theorem findAvailablePort_skips_busy:
  fixes probe :: "int \<Rightarrow> listen_result" and P :: int and N :: nat
  assumes busy: "\<forall>i<N. probe (P + int i) = ListenError ''EADDRINUSE''"
  shows "(probe (P + int N) = Listening (P + int N) \<longrightarrow>
            findAvailablePort probe P = Some (Inr (P + int N)))
       \<and> (\<forall>code. probe (P + int N) = ListenError code \<and> code \<noteq> ''EADDRINUSE'' \<longrightarrow>
            findAvailablePort probe P = Some (Inl (SystemError code)))"
  using busy
proof (induction N arbitrary: P)
  case 0
  show ?case
  proof (intro conjI allI impI)
    assume "probe (P + int 0) = Listening (P + int 0)"
    then show "findAvailablePort probe P = Some (Inr (P + int 0))"
      by (subst findAvailablePort.simps) simp
  next
    fix code
    assume "probe (P + int 0) = ListenError code \<and> code \<noteq> ''EADDRINUSE''"
    then show "findAvailablePort probe P = Some (Inl (SystemError code))"
      by (subst findAvailablePort.simps) simp
  qed
next
  case (Suc N)
  have first: "probe P = ListenError ''EADDRINUSE''"
    using Suc.prems by (metis add.right_neutral of_nat_0 zero_less_Suc)
  have rest: "\<forall>i<N. probe ((P + 1) + int i) = ListenError ''EADDRINUSE''"
  proof (intro allI impI)
    fix i assume "i < N"
    then have "Suc i < Suc N" by simp
    then have "probe (P + int (Suc i)) = ListenError ''EADDRINUSE''"
      using Suc.prems by blast
    moreover have "P + int (Suc i) = (P + 1) + int i" by simp
    ultimately show "probe ((P + 1) + int i) = ListenError ''EADDRINUSE''"
      by (simp add: add.assoc)
  qed
  have unfold: "findAvailablePort probe P = findAvailablePort probe (P + 1)"
    by (subst findAvailablePort.simps) (simp add: first)
  have shift: "P + 1 + int N = P + int (Suc N)" by simp
  show ?case
    using Suc.IH [OF rest] unfolding unfold shift .
qed

theorem findAvailablePort_skips_busy_witness:
  "findAvailablePort (\<lambda>p. if p < 54323 then ListenError ''EADDRINUSE'' else Listening p) 54321
     = Some (Inr 54323)
   \<and> findAvailablePort (\<lambda>p. if p < 54323 then ListenError ''EADDRINUSE''
                             else ListenError ''EACCES'') 54321
     = Some (Inl (SystemError ''EACCES''))"
  using findAvailablePort_skips_busy
      [of 2 "\<lambda>p. if p < 54323 then ListenError ''EADDRINUSE'' else Listening p" 54321]
    findAvailablePort_skips_busy
      [of 2 "\<lambda>p. if p < 54323 then ListenError ''EADDRINUSE'' else ListenError ''EACCES''" 54321]
  by simp

section \<open>The callback listener and the login flow\<close>

lemma settled_step: "settled l = Some r \<Longrightarrow> settled (step l ev) = Some r"
  by (cases ev) (simp_all add: settle_def Let_def)

lemma settled_foldl: "settled l = Some r \<Longrightarrow> settled (foldl step l evs) = Some r"
  by (induction evs arbitrary: l) (simp_all add: settled_step)

lemma other_requests:
  "\<forall>ev \<in> set evs. \<exists>p q. ev = Request p q \<and> p \<noteq> Some ''/callback'' \<Longrightarrow>
   settled (foldl step l evs) = settled l \<and> timerArmed (foldl step l evs) = timerArmed l"
  by (induction evs arbitrary: l) auto

text \<open>
  The timer is still pending after a run of events exactly when every one of them was a
  request to another path: a request to the callback path and a server error both clear
  the timer, and the timer fires once. So the runs in which the timer fires are those of
  the form below, and a server error that comes first settles the promise with that error.
\<close>

lemma timerArmed_step:
  "timerArmed (step l ev)
   = (timerArmed l \<and> (\<exists>p q. ev = Request p q \<and> p \<noteq> Some ''/callback''))"
  by (cases ev) (auto simp: settle_def Let_def)

lemma timer_pending_iff:
  "timerArmed (foldl step l evs)
   = (timerArmed l \<and> (\<forall>ev \<in> set evs. \<exists>p q. ev = Request p q \<and> p \<noteq> Some ''/callback''))"
proof (induction evs arbitrary: l)
  case Nil
  show ?case by simp
next
  case (Cons ev evs)
  show ?case
    by (simp only: foldl_Cons Cons.IH timerArmed_step) auto
qed

lemma timer_rejects:
  assumes "\<forall>ev \<in> set before. \<exists>p q. ev = Request p q \<and> p \<noteq> Some ''/callback''"
  shows "startCallbackServer (before @ TimerFires # later) = Some (Inl CallbackTimeout)"
proof -
  let ?l = "foldl step listening before"
  have "settled ?l = None" "timerArmed ?l"
    using other_requests [OF assms, of listening] by (simp_all add: listening_def)
  then have "settled (step ?l TimerFires) = Some (Inl CallbackTimeout)"
    by (simp add: settle_def)
  then show ?thesis
    by (simp add: startCallbackServer_def settled_foldl)
qed

lemma failed_login_keeps_store:
  "authenticate env store = Some (Inl e, store') \<Longrightarrow> store' = store"
  unfolding authenticate_def
  by (auto simp: Let_def split: option.splits sum.splits if_splits)

lemma ex_port: "findAvailablePort (probe (exampleEnv evs)) 54321 = Some (Inr 54321)"
  by (subst findAvailablePort.simps) (simp add: exampleEnv_def)

lemma ex_listen:
  "startCallbackServer (callbackEvents (exampleEnv [Request (Some ''/callback'') q]) port)
     = Some (Inr q)"
  by (simp add: exampleEnv_def startCallbackServer_def listening_def settle_def Let_def)



lemma toNumber_small: "0 \<le> i \<Longrightarrow> i < 9007199254740992 \<Longrightarrow> toNumber i = Num i"
  by (rule toNumber_exact) simp

lemma parseInt_3600: "parseInt ''3600'' = Num 3600"
  by (simp add: parseInt_def parseDigits_def decimalValue_def digitVal_def isDigit_def
        isWhiteSpace_def toNumber_small)

lemma parseInt_10: "parseInt ''10'' = Num 10"
  by (simp add: parseInt_def parseDigits_def decimalValue_def digitVal_def isDigit_def
        isWhiteSpace_def toNumber_small)

lemma parseInt_0: "parseInt ''0'' = Num 0"
  by (simp add: parseInt_def parseDigits_def decimalValue_def digitVal_def isDigit_def
        isWhiteSpace_def toNumber_small)

lemma parseInt_abc: "parseInt ''abc'' = NaN"
  by (simp add: parseInt_def parseDigits_def isDigit_def isWhiteSpace_def)

lemma parseInt_values: "parseInt s \<noteq> Null"
  by (auto simp: parseInt_def toNumber_not_NaN split: list.splits option.splits)

lemma clock_seconds:
  assumes "\<bar>c\<bar> \<le> 8640000000000000"
  shows "- 8640000000000 \<le> c div 1000" "c div 1000 \<le> (8640000000000 :: int)"
proof -
  have "(- 8640000000000000) div 1000 \<le> c div (1000 :: int)"
    by (rule zdiv_mono1) (use assms in simp_all)
  then show "- 8640000000000 \<le> c div 1000" by simp
  have "c div 1000 \<le> 8640000000000000 div (1000 :: int)"
    by (rule zdiv_mono1) (use assms in simp_all)
  then show "c div 1000 \<le> 8640000000000" by simp
qed

lemma login_succeeds:
  assumes port: "findAvailablePort (probe env) 54321 = Some (Inr port)"
    and cb: "startCallbackServer (callbackEvents env port) = Some (Inr params)"
    and url: "oauth_error (signInWithOAuth env port) = None"
             "truthy (oauth_url (signInWithOAuth env port))"
    and noerr: "\<not> truthy (error params)"
    and toks: "truthy (access_token params)" "truthy (refresh_token params)"
    and sess: "session_error (setSession env (the (access_token params))
                                             (the (refresh_token params))) = None"
              "session_user (setSession env (the (access_token params))
                                            (the (refresh_token params))) = Some u"
  shows "authenticate env store =
           Some (Inr (),
                 setAuth store
                   \<lparr>accessToken = the (access_token params),
                    refreshToken = the (refresh_token params),
                    expiresAt = js_add (unixSeconds (clockMs env))
                                       (parseInt (or_default (expires_in params) ''3600'')),
                    user = \<lparr>email = or_default (su_email u) [], user_id = su_id u\<rparr>\<rparr>)"
  using assms by (simp add: authenticate_def Let_def)

lemma login_inversion:
  assumes ok: "authenticate env store = Some (Inr (), store')"
    and port: "findAvailablePort (probe env) 54321 = Some (Inr port)"
    and cb: "startCallbackServer (callbackEvents env port) = Some (Inr params)"
  shows "oauth_error (signInWithOAuth env port) = None
       \<and> truthy (oauth_url (signInWithOAuth env port))
       \<and> \<not> truthy (error params)
       \<and> truthy (access_token params) \<and> truthy (refresh_token params)
       \<and> session_error (setSession env (the (access_token params))
                                        (the (refresh_token params))) = None
       \<and> session_user (setSession env (the (access_token params))
                                       (the (refresh_token params))) \<noteq> None"
  using ok port cb
  by (simp add: authenticate_def Let_def split: if_splits)

lemma login_names_callback:
  assumes ok: "authenticate env store = Some (Inr (), store')"
  shows "\<exists>port params. findAvailablePort (probe env) 54321 = Some (Inr port)
           \<and> startCallbackServer (callbackEvents env port) = Some (Inr params)"
  using ok
  by (auto simp: authenticate_def Let_def split: option.splits sum.splits if_splits)

lemma login_session:
  assumes ok: "authenticate env store = Some (Inr (), store')"
    and port: "findAvailablePort (probe env) 54321 = Some (Inr port)"
    and cb: "startCallbackServer (callbackEvents env port) = Some (Inr params)"
  shows "\<exists>a. getAuth store' = Some a
           \<and> expiresAt a = jsonNumber (js_add (unixSeconds (clockMs env))
                                   (parseInt (or_default (expires_in params) ''3600'')))
           \<and> accessToken a = the (access_token params)
           \<and> refreshToken a = the (refresh_token params)"
  using ok port cb
  by (auto simp: authenticate_def Let_def getAuth_def setAuth_def jsonStoredAuth_def
           split: if_splits)

lemma ex_login:
  "authenticate (exampleEnv [Request (Some ''/callback'') (exampleParams e)]) exampleStore
   = Some (Inr (), setAuth exampleStore
        (exampleSession (js_add (Num 1700000000) (parseInt (or_default e ''3600'')))))"
  by (simp add: authenticate_def ex_port ex_listen Let_def)
     (simp add: exampleEnv_def exampleParams_def exampleSession_def unixSeconds_def)

lemma ex_sum: "0 \<le> n \<Longrightarrow> n < 1000000 \<Longrightarrow> js_add (Num 1700000000) (Num n) = Num (1700000000 + n)"
  by (simp add: js_add_def toNumber_small)

text \<open>
  Claim C4 says that every successful login persists \<open>expiresAt = now + expiresIn\<close>. A
  callback with \<open>expires_in=abc\<close> completes the login: \<open>parseInt\<close> gives \<open>NaN\<close>, so does
  the sum, and what the configuration file then holds as \<open>expiresAt\<close> is \<open>null\<close>.
\<close>

theorem non_numeric_expires_in_persists_null:
  "authenticate (exampleEnv [Request (Some ''/callback'') (exampleParams (Some ''abc''))])
     exampleStore
   = Some (Inr (), setAuth exampleStore (exampleSession NaN))
   \<and> getAuth (setAuth exampleStore (exampleSession NaN)) = Some (exampleSession Null)
   \<and> expiresAt (exampleSession Null) = Null
   \<and> js_add (unixSeconds (clockMs (exampleEnv [Request (Some ''/callback'')
                                                (exampleParams (Some ''abc''))])))
             (parseInt (or_default (Some ''abc'') ''3600'')) = NaN
   \<and> Null \<noteq> NaN"
  by (simp add: ex_login parseInt_abc js_add_def)
     (simp add: getAuth_def setAuth_def jsonStoredAuth_def exampleSession_def exampleEnv_def
        unixSeconds_def)

text \<open>
  Claim C4, amended. When the listener delivers parameters without \<open>error\<close> and with both
  tokens, and the provider accepts the tokens, \<open>authenticate\<close> succeeds and stores a
  session whose \<open>expiresAt\<close> is \<open>floor(now / 1000) + expiresIn\<close> whenever that sum is a
  finite number, and \<open>null\<close> when it is \<open>NaN\<close> or infinite. The clock is read when the
  session is built, and \<open>expiresIn\<close> is \<open>parseInt\<close> of the \<open>expires_in\<close> parameter, or of
  \<open>3600\<close> when the parameter is absent or empty. With \<open>expires_in=10\<close> the stored
  \<open>expiresAt\<close> is 10 seconds after the clock reading, and \<open>checkAuth\<close> at that reading
  reports \<open>authenticated = true\<close>. Every successful login is of this kind, by
  \<open>login_names_callback\<close> and \<open>login_inversion\<close>.
\<close>

theorem login_persists_expiresAt:
  assumes port: "findAvailablePort (probe env) 54321 = Some (Inr port)"
    and cb: "startCallbackServer (callbackEvents env port) = Some (Inr params)"
    and url: "oauth_error (signInWithOAuth env port) = None"
             "truthy (oauth_url (signInWithOAuth env port))"
    and noerr: "\<not> truthy (error params)"
    and toks: "truthy (access_token params)" "truthy (refresh_token params)"
    and sess: "session_error (setSession env (the (access_token params))
                                             (the (refresh_token params))) = None"
              "session_user (setSession env (the (access_token params))
                                            (the (refresh_token params))) = Some u"
  shows "\<exists>store' a.
           authenticate env store = Some (Inr (), store')
         \<and> getAuth store' = Some a
         \<and> accessToken a = the (access_token params)
         \<and> refreshToken a = the (refresh_token params)
         \<and> (\<forall>k. js_add (unixSeconds (clockMs env))
                         (parseInt (or_default (expires_in params) ''3600'')) = Num k
                \<longrightarrow> expiresAt a = Num k)
         \<and> (js_add (unixSeconds (clockMs env))
                    (parseInt (or_default (expires_in params) ''3600''))
               \<in> {NaN, Infinity, NegInfinity}
                \<longrightarrow> expiresAt a = Null)
         \<and> (\<not> truthy (expires_in params) \<and> \<bar>clockMs env\<bar> \<le> 8640000000000000
                \<longrightarrow> expiresAt a = Num (clockMs env div 1000 + 3600))
         \<and> (expires_in params = Some ''10'' \<and> \<bar>clockMs env\<bar> \<le> 8640000000000000
                \<longrightarrow> expiresAt a = Num (clockMs env div 1000 + 10)
                    \<and> authenticated (checkAuth store' (clockMs env)))"
proof -
  let ?S = "js_add (unixSeconds (clockMs env))
                   (parseInt (or_default (expires_in params) ''3600''))"
  let ?a = "\<lparr>accessToken = the (access_token params),
             refreshToken = the (refresh_token params),
             expiresAt = ?S,
             user = \<lparr>email = or_default (su_email u) [], user_id = su_id u\<rparr>\<rparr>"
  let ?store' = "setAuth store ?a"
  have run: "authenticate env store = Some (Inr (), ?store')"
    by (rule login_succeeds [OF port cb url noerr toks sess])
  have got: "getAuth ?store' = Some (jsonStoredAuth ?a)"
    by (simp add: getAuth_def setAuth_def)
  have fin: "expiresAt (jsonStoredAuth ?a) = Num k" if "?S = Num k" for k
    using that by (simp add: jsonStoredAuth_def)
  have inf: "expiresAt (jsonStoredAuth ?a) = Null" if "?S \<in> {NaN, Infinity, NegInfinity}"
    using that by (auto simp: jsonStoredAuth_def)
  have sum: "js_add (unixSeconds (clockMs env)) (Num n) = Num (clockMs env div 1000 + n)"
    if "\<bar>clockMs env\<bar> \<le> 8640000000000000" "0 \<le> n" "n \<le> 3600" for n
  proof -
    have "\<bar>clockMs env div 1000 + n\<bar> < 2 ^ 53"
      using clock_seconds [OF that(1)] that(2,3) by simp
    then show ?thesis
      by (simp add: js_add_def unixSeconds_def toNumber_exact)
  qed
  have dflt: "expiresAt (jsonStoredAuth ?a) = Num (clockMs env div 1000 + 3600)"
    if "\<not> truthy (expires_in params) \<and> \<bar>clockMs env\<bar> \<le> 8640000000000000"
  proof -
    have "or_default (expires_in params) ''3600'' = ''3600''"
      using that by (cases "expires_in params") simp_all
    then have "?S = Num (clockMs env div 1000 + 3600)"
      using that sum [of 3600] by (simp add: parseInt_3600)
    then show ?thesis by (rule fin)
  qed
  have ten: "expiresAt (jsonStoredAuth ?a) = Num (clockMs env div 1000 + 10)"
    if "expires_in params = Some ''10'' \<and> \<bar>clockMs env\<bar> \<le> 8640000000000000"
  proof -
    have "?S = Num (clockMs env div 1000 + 10)"
      using that sum [of 10] by (simp add: parseInt_10)
    then show ?thesis by (rule fin)
  qed
  have live: "authenticated (checkAuth ?store' (clockMs env))"
    if "expires_in params = Some ''10'' \<and> \<bar>clockMs env\<bar> \<le> 8640000000000000"
    using got ten [OF that]
    by (simp add: checkAuth_def Let_def unixSeconds_def js_ge_def isNaN_def)
  have fields: "accessToken (jsonStoredAuth ?a) = the (access_token params)"
               "refreshToken (jsonStoredAuth ?a) = the (refresh_token params)"
    by (simp_all add: jsonStoredAuth_def)
  show ?thesis
    by (rule exI [of _ ?store'], rule exI [of _ "jsonStoredAuth ?a"])
       (use run got fields fin inf dflt ten live in blast)
qed

theorem login_persists_expiresAt_witness:
  "\<exists>store' a.
      authenticate (exampleEnv [Request (Some ''/callback'') (exampleParams (Some ''10''))])
        exampleStore = Some (Inr (), store')
    \<and> getAuth store' = Some a
    \<and> expiresAt a = Num 1700000010
    \<and> authenticated (checkAuth store' 1700000000000)"
  using login_persists_expiresAt
      [where env = "exampleEnv [Request (Some ''/callback'') (exampleParams (Some ''10''))]"
         and store = exampleStore and params = "exampleParams (Some ''10'')"
         and u = "\<lparr>su_email = Some ''user@example.org'', su_id = ''u1''\<rparr>",
       OF ex_port ex_listen]
  by (simp add: exampleEnv_def exampleParams_def) blast

text \<open>
  Claim C5 says that \<open>expiresAt\<close> is strictly greater than the time of creation whatever
  \<open>expires_in\<close> the callback carries. A callback with \<open>expires_in=0\<close> completes the login
  and stores a session whose \<open>expiresAt\<close> equals the time of creation.
\<close>

theorem expiresAt_not_after_creation:
  "authenticate (exampleEnv [Request (Some ''/callback'') (exampleParams (Some ''0''))])
     exampleStore
   = Some (Inr (), setAuth exampleStore (exampleSession (Num 1700000000)))
   \<and> getAuth (setAuth exampleStore (exampleSession (Num 1700000000)))
       = Some (exampleSession (Num 1700000000))
   \<and> expiresAt (exampleSession (Num 1700000000)) = Num 1700000000
   \<and> unixSeconds (clockMs (exampleEnv [Request (Some ''/callback'')
                                         (exampleParams (Some ''0''))])) = Num 1700000000
   \<and> \<not> js_gt (Num 1700000000) (Num 1700000000)"
  by (simp add: ex_login parseInt_0 ex_sum)
     (simp add: getAuth_def setAuth_def exampleSession_def exampleEnv_def unixSeconds_def
        js_eval)

lemma later_than_clock:
  assumes c: "0 \<le> c"
  shows "js_gt (jsonNumber S) (Num c) = (\<exists>k. S = Num k \<and> c < k)"
  using c by (cases S) (simp_all add: js_gt_def)

text \<open>
  Claim C5, amended. For a session stored by a successful login, \<open>expiresAt\<close> is strictly
  greater than the time of creation exactly when \<open>now + expiresIn\<close> is a finite number
  greater than \<open>now\<close>. That is so when \<open>expires_in\<close> is absent or empty, the default of
  3600 seconds being used, and when \<open>parseInt\<close> reads from it a positive number with
  \<open>now + expiresIn\<close> below \<open>2^53\<close>. It is not so when \<open>parseInt\<close> reads zero or a negative
  number, nor when it gives \<open>NaN\<close> or an infinity, where \<open>null\<close> is stored.
\<close>

theorem expiresAt_outlives_creation_iff:
  assumes port: "findAvailablePort (probe env) 54321 = Some (Inr port)"
    and cb: "startCallbackServer (callbackEvents env port) = Some (Inr params)"
    and clock: "0 \<le> clockMs env" "clockMs env \<le> 8640000000000000"
  shows "(\<forall>store'. authenticate env store = Some (Inr (), store') \<longrightarrow>
           (\<exists>a. getAuth store' = Some a
             \<and> (js_gt (expiresAt a) (unixSeconds (clockMs env))
                  = (\<exists>k. js_add (unixSeconds (clockMs env))
                                  (parseInt (or_default (expires_in params) ''3600'')) = Num k
                          \<and> clockMs env div 1000 < k))
             \<and> (\<forall>n. parseInt (or_default (expires_in params) ''3600'') = Num n
                      \<and> 0 < n \<and> clockMs env div 1000 + n < 2 ^ 53
                    \<longrightarrow> js_gt (expiresAt a) (unixSeconds (clockMs env)))
             \<and> (\<forall>n. parseInt (or_default (expires_in params) ''3600'') = Num n \<and> n \<le> 0
                    \<longrightarrow> \<not> js_gt (expiresAt a) (unixSeconds (clockMs env)))
             \<and> (parseInt (or_default (expires_in params) ''3600'') \<in> {NaN, Infinity, NegInfinity}
                    \<longrightarrow> expiresAt a = Null
                        \<and> \<not> js_gt (expiresAt a) (unixSeconds (clockMs env)))
             \<and> (\<not> truthy (expires_in params)
                    \<longrightarrow> js_gt (expiresAt a) (unixSeconds (clockMs env)))))
       \<and> (oauth_error (signInWithOAuth env port) = None
             \<and> truthy (oauth_url (signInWithOAuth env port))
             \<and> \<not> truthy (error params)
             \<and> truthy (access_token params) \<and> truthy (refresh_token params)
             \<and> session_error (setSession env (the (access_token params))
                                              (the (refresh_token params))) = None
             \<and> session_user (setSession env (the (access_token params))
                                             (the (refresh_token params))) \<noteq> None
            \<longrightarrow> (\<exists>store'. authenticate env store = Some (Inr (), store')))"
proof -
  have created: "\<exists>a. getAuth store' = Some a
           \<and> (js_gt (expiresAt a) (unixSeconds (clockMs env))
                = (\<exists>k. js_add (unixSeconds (clockMs env))
                                (parseInt (or_default (expires_in params) ''3600'')) = Num k
                        \<and> clockMs env div 1000 < k))
           \<and> (\<forall>n. parseInt (or_default (expires_in params) ''3600'') = Num n
                    \<and> 0 < n \<and> clockMs env div 1000 + n < 2 ^ 53
                  \<longrightarrow> js_gt (expiresAt a) (unixSeconds (clockMs env)))
           \<and> (\<forall>n. parseInt (or_default (expires_in params) ''3600'') = Num n \<and> n \<le> 0
                  \<longrightarrow> \<not> js_gt (expiresAt a) (unixSeconds (clockMs env)))
           \<and> (parseInt (or_default (expires_in params) ''3600'') \<in> {NaN, Infinity, NegInfinity}
                  \<longrightarrow> expiresAt a = Null
                      \<and> \<not> js_gt (expiresAt a) (unixSeconds (clockMs env)))
           \<and> (\<not> truthy (expires_in params)
                  \<longrightarrow> js_gt (expiresAt a) (unixSeconds (clockMs env)))"
    if ok: "authenticate env store = Some (Inr (), store')" for store'
  proof -
    let ?c = "clockMs env div 1000"
    let ?E = "parseInt (or_default (expires_in params) ''3600'')"
    let ?S = "js_add (unixSeconds (clockMs env)) ?E"
    obtain a where a: "getAuth store' = Some a" "expiresAt a = jsonNumber ?S"
      using login_session [OF ok port cb] by blast
    have c0: "0 \<le> ?c"
      using clock(1) by (simp add: pos_imp_zdiv_nonneg_iff)
    have c1: "?c \<le> 8640000000000"
      using clock_seconds(2) [of "clockMs env"] clock by simp
    have iff: "js_gt (expiresAt a) (unixSeconds (clockMs env))
               = (\<exists>k. ?S = Num k \<and> ?c < k)"
      unfolding a(2) unixSeconds_def by (rule later_than_clock [OF c0])
    have pos: "js_gt (expiresAt a) (unixSeconds (clockMs env))"
      if "?E = Num n \<and> 0 < n \<and> ?c + n < 2 ^ 53" for n
    proof -
      have "\<bar>?c + n\<bar> < 2 ^ 53" using that c0 by simp
      then have "?S = Num (?c + n)"
        using that by (simp add: js_add_def unixSeconds_def toNumber_exact)
      then show ?thesis
        using that by (simp add: iff)
    qed
    have nonpos: "\<not> js_gt (expiresAt a) (unixSeconds (clockMs env))"
      if "?E = Num n \<and> n \<le> 0" for n
    proof (cases "0 \<le> ?c + n")
      case True
      then have "\<bar>?c + n\<bar> < 2 ^ 53" using that c1 by simp
      then have "?S = Num (?c + n)"
        using that by (simp add: js_add_def unixSeconds_def toNumber_exact)
      then show ?thesis
        using that by (simp add: iff)
    next
      case False
      then have neg: "?c + n < 0" by simp
      have S: "?S = toNumber (?c + n)"
        using that by (simp add: js_add_def unixSeconds_def)
      from toNumber_negative [OF neg] show ?thesis
      proof
        assume "toNumber (?c + n) = NegInfinity"
        then show ?thesis by (simp add: iff S)
      next
        assume "\<exists>k\<le>0. toNumber (?c + n) = Num k"
        then obtain k where "k \<le> 0" "toNumber (?c + n) = Num k" by blast
        then show ?thesis using c0 by (simp add: iff S)
      qed
    qed
    have odd_cases: "expiresAt a = Null \<and> \<not> js_gt (expiresAt a) (unixSeconds (clockMs env))"
      if "?E \<in> {NaN, Infinity, NegInfinity}"
    proof -
      have "?S \<in> {NaN, Infinity, NegInfinity}"
        using that by (auto simp: js_add_def unixSeconds_def)
      then have n: "expiresAt a = Null" and m: "\<not> (\<exists>k. ?S = Num k \<and> ?c < k)"
        by (auto simp: a(2))
      from m have "\<not> js_gt (expiresAt a) (unixSeconds (clockMs env))"
        unfolding iff .
      with n show ?thesis by (rule conjI)
    qed
    have dflt: "js_gt (expiresAt a) (unixSeconds (clockMs env))"
      if "\<not> truthy (expires_in params)"
    proof -
      have "or_default (expires_in params) ''3600'' = ''3600''"
        using that by (cases "expires_in params") simp_all
      then have "?E = Num 3600 \<and> (0 :: int) < 3600 \<and> ?c + 3600 < 2 ^ 53"
        using c1 by (simp add: parseInt_3600)
      then show ?thesis by (rule pos)
    qed
    show ?thesis
      by (rule exI [of _ a]) (use a(1) iff pos nonpos odd_cases dflt in blast)
  qed
  have reached: "\<exists>store'. authenticate env store = Some (Inr (), store')"
    if c: "oauth_error (signInWithOAuth env port) = None
             \<and> truthy (oauth_url (signInWithOAuth env port))
             \<and> \<not> truthy (error params)
             \<and> truthy (access_token params) \<and> truthy (refresh_token params)
             \<and> session_error (setSession env (the (access_token params))
                                              (the (refresh_token params))) = None
             \<and> session_user (setSession env (the (access_token params))
                                             (the (refresh_token params))) \<noteq> None"
  proof -
    from c obtain u where
      "session_user (setSession env (the (access_token params))
                                    (the (refresh_token params))) = Some u"
      by blast
    with c login_succeeds [OF port cb, of u store] show ?thesis
      by blast
  qed
  show ?thesis
    using created reached by blast
qed

theorem expiresAt_outlives_creation_iff_witness:
  "authenticate (exampleEnv [Request (Some ''/callback'') (exampleParams None)]) exampleStore
   = Some (Inr (), setAuth exampleStore (exampleSession (Num 1700003600)))
   \<and> (\<exists>a. getAuth (setAuth exampleStore (exampleSession (Num 1700003600))) = Some a
          \<and> js_gt (expiresAt a) (Num 1700000000))"
proof -
  have run: "authenticate (exampleEnv [Request (Some ''/callback'') (exampleParams None)])
               exampleStore
             = Some (Inr (), setAuth exampleStore (exampleSession (Num 1700003600)))"
    by (simp add: ex_login parseInt_3600 ex_sum)
  have clock: "0 \<le> clockMs (exampleEnv evs)" "clockMs (exampleEnv evs) \<le> 8640000000000000"
    for evs
    by (simp_all add: exampleEnv_def)
  from expiresAt_outlives_creation_iff
      [where env = "exampleEnv [Request (Some ''/callback'') (exampleParams None)]"
         and store = exampleStore and params = "exampleParams None",
       OF ex_port ex_listen clock, THEN conjunct1, rule_format, OF run]
  have "\<exists>a. getAuth (setAuth exampleStore (exampleSession (Num 1700003600))) = Some a
          \<and> js_gt (expiresAt a) (Num 1700000000)"
    by (auto simp: exampleEnv_def exampleParams_def unixSeconds_def)
  with run show ?thesis by (rule conjI)
qed

lemma decimalValue_nines:
  "foldl (\<lambda>acc c. 10 * acc + digitVal c) acc (replicate n CHR ''9'')
   = acc * 10 ^ n + (10 ^ n - 1)"
  by (induction n arbitrary: acc) (simp_all add: digitVal_def algebra_simps)

text \<open>
  A run of 309 or more digits \<open>9\<close> is read as \<open>Infinity\<close>, and a login with such an
  \<open>expires_in\<close> stores \<open>null\<close>.
\<close>

lemma parseInt_nines:
  assumes "308 \<le> n"
  shows "parseInt (CHR ''9'' # replicate n CHR ''9'') = Infinity"
proof -
  let ?ds = "CHR ''9'' # replicate n CHR ''9''"
  have d: "isDigit CHR ''9''" "\<not> isWhiteSpace CHR ''9''"
    by (simp_all add: isDigit_def isWhiteSpace_def)
  have w: "dropWhile isWhiteSpace ?ds = ?ds"
    using d by simp
  have t: "takeWhile isDigit ?ds = ?ds"
    using d by (simp add: takeWhile_eq_all_conv)
  have "decimalValue (replicate (Suc n) CHR ''9'') = 10 ^ Suc n - 1"
    unfolding decimalValue_def decimalValue_nines by simp
  then have v: "decimalValue ?ds = 10 ^ Suc n - 1"
    by (simp only: replicate_Suc)
  have pd: "parseDigits ?ds = Some (10 ^ Suc n - 1)"
    unfolding parseDigits_def t Let_def v by simp
  have "(2 :: int) ^ 1024 \<le> 10 ^ 309 - 1"
    by simp
  also have "\<dots> \<le> 10 ^ Suc n - 1"
  proof (rule diff_right_mono)
    show "(10 :: int) ^ 309 \<le> 10 ^ Suc n"
      by (rule power_increasing) (use assms in simp_all)
  qed
  finally have inf: "toNumber (10 ^ Suc n - 1) = Infinity"
    by (rule toNumber_huge)
  show ?thesis
    unfolding parseInt_def w by (simp only: list.case pd option.case inf) simp
qed

lemma long_expires_in_persists_null:
  assumes "308 \<le> n"
  shows "authenticate
           (exampleEnv [Request (Some ''/callback'')
                          (exampleParams (Some (CHR ''9'' # replicate n CHR ''9'')))])
           exampleStore
         = Some (Inr (), setAuth exampleStore (exampleSession Infinity))
       \<and> getAuth (setAuth exampleStore (exampleSession Infinity))
           = Some (exampleSession Null)"
proof -
  have "or_default (Some (CHR ''9'' # replicate n CHR ''9'')) ''3600''
        = CHR ''9'' # replicate n CHR ''9''"
    by simp
  then have "js_add (Num 1700000000)
               (parseInt (or_default (Some (CHR ''9'' # replicate n CHR ''9'')) ''3600''))
             = Infinity"
    by (simp only: parseInt_nines [OF assms]) (simp add: js_add_def)
  then show ?thesis
    by (simp only: ex_login)
       (simp add: getAuth_def setAuth_def jsonStoredAuth_def exampleSession_def)
qed

text \<open>
  Claim C8. If the timer fires before any request to the callback path has arrived, only
  requests to other paths having reached the listener until then, the promise is rejected
  with \<open>CallbackTimeout\<close>, and it stays so whatever arrives later, a request to the
  callback path included; \<open>authenticate\<close> then fails with that error and leaves the store
  as it was. More generally no failed login changes the store.
\<close>

theorem timeout_rejects_and_nothing_persisted:
  assumes quiet: "\<forall>ev \<in> set before. \<exists>p q. ev = Request p q \<and> p \<noteq> Some ''/callback''"
  shows "startCallbackServer (before @ TimerFires # later) = Some (Inl CallbackTimeout)
       \<and> (\<forall>(env :: environment) port store.
             findAvailablePort (probe env) 54321 = Some (Inr port)
             \<and> oauth_error (signInWithOAuth env port) = None
             \<and> truthy (oauth_url (signInWithOAuth env port))
             \<and> callbackEvents env port = before @ TimerFires # later \<longrightarrow>
             authenticate env store = Some (Inl CallbackTimeout, store))
       \<and> (\<forall>(env :: environment) store err store'.
             authenticate env store = Some (Inl err, store') \<longrightarrow> store' = store)"
proof (intro conjI allI impI)
  show "startCallbackServer (before @ TimerFires # later) = Some (Inl CallbackTimeout)"
    by (rule timer_rejects [OF quiet])
next
  fix env :: environment and port store
  assume h: "findAvailablePort (probe env) 54321 = Some (Inr port)
             \<and> oauth_error (signInWithOAuth env port) = None
             \<and> truthy (oauth_url (signInWithOAuth env port))
             \<and> callbackEvents env port = before @ TimerFires # later"
  then have "startCallbackServer (callbackEvents env port) = Some (Inl CallbackTimeout)"
    using timer_rejects [OF quiet, of later] by simp
  then show "authenticate env store = Some (Inl CallbackTimeout, store)"
    using h by (simp add: authenticate_def Let_def)
next
  fix env :: environment and store err store'
  assume "authenticate env store = Some (Inl err, store')"
  then show "store' = store" by (rule failed_login_keeps_store)
qed

theorem timeout_rejects_and_nothing_persisted_witness:
  "startCallbackServer
     ([Request (Some ''/favicon.ico'') (exampleParams None)] @ TimerFires
        # [Request (Some ''/callback'') (exampleParams (Some ''10''))])
   = Some (Inl CallbackTimeout)
   \<and> authenticate
       (exampleEnv ([Request (Some ''/favicon.ico'') (exampleParams None)] @ TimerFires
                      # [Request (Some ''/callback'') (exampleParams (Some ''10''))]))
       exampleStore
     = Some (Inl CallbackTimeout, exampleStore)"
proof -
  note t = timeout_rejects_and_nothing_persisted
      [of "[Request (Some ''/favicon.ico'') (exampleParams None)]"
          "[Request (Some ''/callback'') (exampleParams (Some ''10''))]"]
  have q: "\<forall>ev \<in> set [Request (Some ''/favicon.ico'') (exampleParams None)].
             \<exists>p q. ev = Request p q \<and> p \<noteq> Some ''/callback''"
    by simp
  have e: "callbackEvents (exampleEnv evs) 54321 = evs" for evs
    by (simp add: exampleEnv_def)
  have u: "oauth_error (signInWithOAuth (exampleEnv evs) 54321) = None
           \<and> truthy (oauth_url (signInWithOAuth (exampleEnv evs) 54321))" for evs
    by (simp add: exampleEnv_def)
  show ?thesis
    using t [OF q, THEN conjunct1] t [OF q, THEN conjunct2, THEN conjunct1] ex_port e u
    by blast
qed

section \<open>Requests and their classification\<close>

lemma includes_str_iff_sublist: "includes_str s needle = sublist needle s"
  by (induction s) (simp_all add: sublist_Cons_right)

lemma includes_str_set: "includes_str s needle \<Longrightarrow> set needle \<subseteq> set s"
  by (auto simp: includes_str_iff_sublist dest: set_mono_sublist)

lemma no_second_slash:
  assumes "CHR ''/'' \<notin> set rest"
  shows "\<not> includes_str (c # rest) (x # mid @ [CHR ''/''])"
proof
  assume "includes_str (c # rest) (x # mid @ [CHR ''/''])"
  then consider "prefix (x # mid @ [CHR ''/'']) (c # rest)"
    | "includes_str rest (x # mid @ [CHR ''/''])"
    by auto
  then show False
  proof cases
    case 1
    then have "prefix (mid @ [CHR ''/'']) rest" by simp
    then have "set (mid @ [CHR ''/'']) \<subseteq> set rest" by (rule set_mono_prefix)
    with assms show False by simp
  next
    case 2
    then have "set (x # mid @ [CHR ''/'']) \<subseteq> set rest" by (rule includes_str_set)
    with assms show False by simp
  qed
qed

lemma hex_not_slash: "n < 16 \<Longrightarrow> ''0123456789ABCDEF'' ! n \<noteq> CHR ''/''"
proof -
  assume "n < 16"
  then have "''0123456789ABCDEF'' ! n \<in> set ''0123456789ABCDEF''"
    by (intro nth_mem) simp
  then show ?thesis by auto
qed

lemma percent_no_slash: "CHR ''/'' \<notin> set (percent c)"
proof -
  have "(of_char c :: nat) < 256" by simp
  then have hi: "(of_char c :: nat) div 16 < 16" and lo: "(of_char c :: nat) mod 16 < 16"
    by arith+
  have "''0123456789ABCDEF'' ! ((of_char c :: nat) div 16) \<noteq> CHR ''/''"
    by (rule hex_not_slash [OF hi])
  moreover have "''0123456789ABCDEF'' ! ((of_char c :: nat) mod 16) \<noteq> CHR ''/''"
    by (rule hex_not_slash [OF lo])
  ultimately show ?thesis
    by (simp add: percent_def)
qed

lemma formUrlEncode_no_slash: "CHR ''/'' \<notin> set (formUrlEncode s)"
  using percent_no_slash by (auto simp: formUrlEncode_def isAlnum_def)

lemma formUrlEncode_status: "formUrlEncode ''status'' = ''status''"
  by (simp add: formUrlEncode_def isAlnum_def)

lemma listProjects_endpoint_shape:
  "\<exists>rest. listProjects_endpoint st = CHR ''/'' # rest \<and> CHR ''/'' \<notin> set rest"
proof (cases "truthy st")
  case True
  then obtain s where "st = Some s" by (cases st) auto
  then have "listProjects_endpoint st = CHR ''/'' # (''projects?status='' @ formUrlEncode s)"
    using True by (simp add: listProjects_endpoint_def formUrlEncode_status)
  then show ?thesis
    using formUrlEncode_no_slash by auto
next
  case False
  then have "listProjects_endpoint st = CHR ''/'' # ''projects''"
    by (simp add: listProjects_endpoint_def)
  then show ?thesis by auto
qed

lemma listProjects_resource: "resourceName (listProjects_endpoint st) = ''Resource''"
proof -
  obtain rest where r: "listProjects_endpoint st = CHR ''/'' # rest" "CHR ''/'' \<notin> set rest"
    using listProjects_endpoint_shape by blast
  have "\<not> includes_str (CHR ''/'' # rest) (CHR ''/'' # ''projects'' @ [CHR ''/''])"
       "\<not> includes_str (CHR ''/'' # rest) (CHR ''/'' # ''outline'' @ [CHR ''/''])"
       "\<not> includes_str (CHR ''/'' # rest) (CHR ''/'' # ''section'' @ [CHR ''/''])"
    using r(2) by (rule no_second_slash)+
  then show ?thesis
    by (simp add: resourceName_def r(1))
qed

lemma regenerateOutline_project:
  "resourceName (regenerateOutline_endpoint projectName) = ''Project''"
proof -
  have "sublist ''/projects/'' (''/api/v2'' @ ''/projects/''
          @ (encodeURIComponent projectName @ ''/outline/regenerate''))"
    by (rule sublist_appendI)
  then show ?thesis
    by (simp add: resourceName_def regenerateOutline_endpoint_def includes_str_iff_sublist)
qed

lemma makeRequest_404:
  assumes tok: "getAccessToken store nowMs = Inr token"
    and resp: "fetch env (getBackendUrl store @ endpoint) (requestInit token options)
               = Responded r"
    and nf: "status r = 404"
  shows "makeRequest env store nowMs endpoint options =
           Inl (ApiError (resourceName endpoint @ '' not found. ''
                          @ (if responseText r = [] then ''The requested resource does not exist.''
                             else responseText r))
                  404 (Some (responseText r)))"
  using tok resp nf by (simp add: makeRequest_def Let_def rethrow_def)

lemma ex_token: "getAccessToken exampleLoggedIn 1700000000000 = Inr ''a''"
  by (simp add: getAccessToken_def exampleLoggedIn_def getAuth_def setAuth_def exampleStore_def
        exampleSession_def unixSeconds_def js_eval)

lemma ex_fetch: "fetch (exampleApiEnv r) url init = Responded r"
  by (simp add: exampleApiEnv_def)

text \<open>
  Claim C7. A response with status 404 makes \<open>makeRequest\<close> throw an \<open>ApiError\<close> with
  status 404 whose message starts with the resource name, chosen by the first of
  \<open>/projects/\<close>, \<open>/outline/\<close>, \<open>/section/\<close> that occurs in the endpoint and \<open>Resource\<close>
  when none does; the message contains the response body when that is not empty.
\<close>

theorem not_found_classification:
  assumes tok: "getAccessToken store nowMs = Inr token"
    and resp: "fetch env (getBackendUrl store @ endpoint) (requestInit token options)
               = Responded r"
    and nf: "status r = 404"
  shows "\<exists>msg. makeRequest env store nowMs endpoint options
                  = Inl (ApiError msg 404 (Some (responseText r)))
           \<and> msg = resourceName endpoint @ '' not found. ''
                    @ (if responseText r = [] then ''The requested resource does not exist.''
                       else responseText r)
           \<and> (responseText r \<noteq> [] \<longrightarrow> sublist (responseText r) msg)
           \<and> resourceName endpoint =
               (if sublist ''/projects/'' endpoint then ''Project''
                else if sublist ''/outline/'' endpoint then ''Outline''
                else if sublist ''/section/'' endpoint then ''Section''
                else ''Resource'')"
proof -
  let ?msg = "resourceName endpoint @ '' not found. ''
              @ (if responseText r = [] then ''The requested resource does not exist.''
                 else responseText r)"
  have m: "makeRequest env store nowMs endpoint options
           = Inl (ApiError ?msg 404 (Some (responseText r)))"
    by (rule makeRequest_404 [OF tok resp nf])
  have b: "sublist (responseText r) ?msg" if "responseText r \<noteq> []"
  proof -
    have "?msg = (resourceName endpoint @ '' not found. '') @ responseText r"
      using that by simp
    then show ?thesis
      by (simp only: sublist_append_leftI)
  qed
  have k: "resourceName endpoint =
               (if sublist ''/projects/'' endpoint then ''Project''
                else if sublist ''/outline/'' endpoint then ''Outline''
                else if sublist ''/section/'' endpoint then ''Section''
                else ''Resource'')"
    by (simp only: resourceName_def includes_str_iff_sublist)
  show ?thesis
    by (rule exI [of _ ?msg]) (use m b k in blast)
qed

theorem not_found_classification_witness:
  "makeRequest (exampleApiEnv (exampleResponse ''no such project'')) exampleLoggedIn
     1700000000000 ''/projects/p1'' noOptions
   = Inl (ApiError ''Project not found. no such project'' 404 (Some ''no such project''))
   \<and> makeRequest (exampleApiEnv (exampleResponse [])) exampleLoggedIn
     1700000000000 ''/outline/x'' noOptions
   = Inl (ApiError ''Outline not found. The requested resource does not exist.'' 404 (Some []))
   \<and> makeRequest (exampleApiEnv (exampleResponse [])) exampleLoggedIn
     1700000000000 ''/project_status/p1'' noOptions
   = Inl (ApiError ''Resource not found. The requested resource does not exist.'' 404 (Some []))"
  using not_found_classification
      [where env = "exampleApiEnv (exampleResponse ''no such project'')"
         and endpoint = "''/projects/p1''" and options = noOptions, OF ex_token ex_fetch]
    not_found_classification
      [where env = "exampleApiEnv (exampleResponse [])"
         and endpoint = "''/outline/x''" and options = noOptions, OF ex_token ex_fetch]
    not_found_classification
      [where env = "exampleApiEnv (exampleResponse [])"
         and endpoint = "''/project_status/p1''" and options = noOptions, OF ex_token ex_fetch]
  by (simp add: exampleResponse_def resourceName_def)

text \<open>
  Claim C9 says that the caller's value replaces the Bearer token whenever the caller's
  options include an Authorization header. A caller who names the header
  \<open>authorization\<close> supplies one, and the object handed to \<open>fetch\<close> then has both
  properties: \<open>Authorization\<close> still with the Bearer token, \<open>authorization\<close> with the
  caller's text.
\<close>

theorem lowercase_authorization_keeps_bearer:
  "sameHeaderName ''authorization'' ''Authorization''
   \<and> the (req_headers (requestInit ''a''
             (noOptions\<lparr>req_headers := Some [''authorization'' \<mapsto> ''Basic dXNlcg=='']\<rparr>)))
         ''Authorization'' = Some ''Bearer a''
   \<and> the (req_headers (requestInit ''a''
             (noOptions\<lparr>req_headers := Some [''authorization'' \<mapsto> ''Basic dXNlcg=='']\<rparr>)))
         ''authorization'' = Some ''Basic dXNlcg=='' "
  by (simp add: sameHeaderName_def lowerAscii_def requestInit_def spread_def noOptions_def
        map_add_def)

text \<open>
  Claim C9, amended. The headers object handed to \<open>fetch\<close> has the caller's properties
  merged after \<open>Authorization\<close>: when the caller has a property of exactly that name its
  text is what is sent, otherwise \<open>Bearer\<close> followed by the token of \<open>getAccessToken\<close>;
  every other property, the method and the body are the caller's. When no property of the
  caller matches \<open>Authorization\<close> in another letter case, the object has no other header
  of that name. \<open>makeRequest\<close> hands this request to \<open>fetch\<close>: it returns what \<open>fetch\<close>
  answers there, an exception as its error and a successful body as its result, and
  depends on \<open>fetch\<close> at no other request.
\<close>

theorem authorization_header_sent:
  assumes tok: "getAccessToken store nowMs = Inr token"
  shows "req_headers (requestInit token options)
           = Some (\<lambda>k. if k = ''Authorization''
                       then Some (case spread (req_headers options) ''Authorization'' of
                                    Some v \<Rightarrow> v
                                  | None \<Rightarrow> ''Bearer '' @ token)
                       else spread (req_headers options) k)
       \<and> req_method (requestInit token options) = req_method options
       \<and> req_body (requestInit token options) = req_body options
       \<and> ((\<forall>k. sameHeaderName k ''Authorization'' \<and> k \<noteq> ''Authorization''
                 \<longrightarrow> spread (req_headers options) k = None)
            \<longrightarrow> (\<forall>k. sameHeaderName k ''Authorization''
                      \<and> the (req_headers (requestInit token options)) k \<noteq> None
                     \<longrightarrow> k = ''Authorization''))
       \<and> (\<forall>env endpoint err.
             fetch env (getBackendUrl store @ endpoint) (requestInit token options) = Thrown err
             \<longrightarrow> makeRequest env store nowMs endpoint options
                   = Inl (rethrow (getBackendUrl store) err))
       \<and> (\<forall>env endpoint r.
             fetch env (getBackendUrl store @ endpoint) (requestInit token options) = Responded r
             \<and> responseOk r \<and> contentType r = None
             \<longrightarrow> makeRequest env store nowMs endpoint options = Inr (TextBody (responseText r)))
       \<and> (\<forall>env env' endpoint.
             fetch env' (getBackendUrl store @ endpoint) (requestInit token options)
               = fetch env (getBackendUrl store @ endpoint) (requestInit token options)
             \<and> JSON_parse env' = JSON_parse env
             \<longrightarrow> makeRequest env' store nowMs endpoint options
                   = makeRequest env store nowMs endpoint options)"
proof -
  have h: "req_headers (requestInit token options)
           = Some (\<lambda>k. if k = ''Authorization''
                       then Some (case spread (req_headers options) ''Authorization'' of
                                    Some v \<Rightarrow> v
                                  | None \<Rightarrow> ''Bearer '' @ token)
                       else spread (req_headers options) k)"
    by (auto simp: requestInit_def map_add_def fun_eq_iff split: option.splits)
  have mb: "req_method (requestInit token options) = req_method options"
           "req_body (requestInit token options) = req_body options"
    by (simp_all add: requestInit_def)
  have only: "k = ''Authorization''"
    if "\<forall>k. sameHeaderName k ''Authorization'' \<and> k \<noteq> ''Authorization''
              \<longrightarrow> spread (req_headers options) k = None"
       "sameHeaderName k ''Authorization''
        \<and> the (req_headers (requestInit token options)) k \<noteq> None" for k
    using that unfolding h by (auto split: if_splits)
  have thrown: "makeRequest env store nowMs endpoint options
                = Inl (rethrow (getBackendUrl store) err)"
    if "fetch env (getBackendUrl store @ endpoint) (requestInit token options) = Thrown err"
    for env endpoint err
    using that by (simp add: makeRequest_def Let_def tok)
  have answered: "makeRequest env store nowMs endpoint options = Inr (TextBody (responseText r))"
    if "fetch env (getBackendUrl store @ endpoint) (requestInit token options) = Responded r
        \<and> responseOk r \<and> contentType r = None"
    for env endpoint r
    using that by (simp add: makeRequest_def Let_def tok responseOk_def)
  have same: "makeRequest env' store nowMs endpoint options
              = makeRequest env store nowMs endpoint options"
    if "fetch env' (getBackendUrl store @ endpoint) (requestInit token options)
          = fetch env (getBackendUrl store @ endpoint) (requestInit token options)
        \<and> JSON_parse env' = JSON_parse env"
    for env env' endpoint
  proof -
    from that have f: "fetch env' (getBackendUrl store @ endpoint) (requestInit token options)
          = fetch env (getBackendUrl store @ endpoint) (requestInit token options)"
      and json: "JSON_parse env' = JSON_parse env"
      by blast+
    show ?thesis
      unfolding makeRequest_def Let_def tok json by (simp add: f)
  qed
  show ?thesis
    using h mb only thrown answered same by blast
qed

theorem authorization_header_sent_witness:
  "the (req_headers (requestInit ''a''
          (noOptions\<lparr>req_headers := Some [''Authorization'' \<mapsto> ''Basic dXNlcg=='']\<rparr>)))
     ''Authorization'' = Some ''Basic dXNlcg==''
   \<and> the (req_headers (requestInit ''a'' noOptions)) ''Authorization'' = Some ''Bearer a''
   \<and> makeRequest (exampleApiEnv ((exampleResponse ''ok'')\<lparr>status := 200\<rparr>)) exampleLoggedIn
       1700000000000 ''/projects'' noOptions = Inr (TextBody ''ok'')"
  using authorization_header_sent
      [OF ex_token,
       of "noOptions\<lparr>req_headers := Some [''Authorization'' \<mapsto> ''Basic dXNlcg=='']\<rparr>",
       THEN conjunct1]
    authorization_header_sent [OF ex_token, of noOptions, THEN conjunct1]
    authorization_header_sent
      [OF ex_token, of noOptions, THEN conjunct2, THEN conjunct2, THEN conjunct2,
       THEN conjunct2, THEN conjunct2, THEN conjunct1, rule_format,
       of "exampleApiEnv ((exampleResponse ''ok'')\<lparr>status := 200\<rparr>)" "''/projects''"
          "(exampleResponse ''ok'')\<lparr>status := 200\<rparr>"]
  by (simp add: spread_def noOptions_def ex_fetch responseOk_def exampleResponse_def)

text \<open>
  Claim C10. The endpoint of \<open>listProjects\<close>, with or without a status filter, contains
  none of the three patterns, so a 404 there names the generic \<open>Resource\<close>; the endpoint of
  \<open>regenerateOutline\<close> contains \<open>/projects/\<close>, so a 404 there names \<open>Project\<close>, not
  \<open>Outline\<close>.
\<close>

theorem own_endpoints_not_found:
  "resourceName (listProjects_endpoint st) = ''Resource''
   \<and> resourceName (regenerateOutline_endpoint projectName) = ''Project''
   \<and> (\<forall>env store nowMs token r.
         getAccessToken store nowMs = Inr token
         \<and> fetch env (getBackendUrl store @ listProjects_endpoint st)
                 (requestInit token noOptions) = Responded r
         \<and> status r = 404 \<longrightarrow>
         listProjects env store nowMs st
           = Inl (ApiError (''Resource not found. ''
                            @ (if responseText r = []
                               then ''The requested resource does not exist.''
                               else responseText r))
                    404 (Some (responseText r))))
   \<and> (\<forall>env store nowMs token bodyText r.
         getAccessToken store nowMs = Inr token
         \<and> fetch env (getBackendUrl store @ regenerateOutline_endpoint projectName)
                 (requestInit token
                    \<lparr>req_method = Some ''POST'',
                     req_headers = Some [''Content-Type'' \<mapsto> ''application/json''],
                     req_body = Some bodyText\<rparr>) = Responded r
         \<and> status r = 404 \<longrightarrow>
         regenerateOutline env store nowMs projectName bodyText
           = Inl (ApiError (''Project not found. ''
                            @ (if responseText r = []
                               then ''The requested resource does not exist.''
                               else responseText r))
                    404 (Some (responseText r))))"
proof (intro conjI allI impI)
  show "resourceName (listProjects_endpoint st) = ''Resource''"
    by (rule listProjects_resource)
next
  show "resourceName (regenerateOutline_endpoint projectName) = ''Project''"
    by (rule regenerateOutline_project)
next
  fix env :: api_environment and store nowMs token r
  assume h: "getAccessToken store nowMs = Inr token
         \<and> fetch env (getBackendUrl store @ listProjects_endpoint st)
                 (requestInit token noOptions) = Responded r
         \<and> status r = 404"
  from h have tok: "getAccessToken store nowMs = Inr token" by (rule conjunct1)
  from h have resp: "fetch env (getBackendUrl store @ listProjects_endpoint st)
                 (requestInit token noOptions) = Responded r"
    and nf: "status r = 404"
    by blast+
  show "listProjects env store nowMs st
           = Inl (ApiError (''Resource not found. ''
                            @ (if responseText r = []
                               then ''The requested resource does not exist.''
                               else responseText r))
                    404 (Some (responseText r)))"
    using makeRequest_404 [OF tok resp nf]
    by (simp add: listProjects_def listProjects_resource)
next
  fix env :: api_environment and store nowMs token bodyText r
  let ?opts = "\<lparr>req_method = Some ''POST'',
                req_headers = Some [''Content-Type'' \<mapsto> ''application/json''],
                req_body = Some bodyText\<rparr>"
  assume h: "getAccessToken store nowMs = Inr token
         \<and> fetch env (getBackendUrl store @ regenerateOutline_endpoint projectName)
                 (requestInit token ?opts) = Responded r
         \<and> status r = 404"
  from h have tok: "getAccessToken store nowMs = Inr token" by (rule conjunct1)
  from h have resp: "fetch env (getBackendUrl store @ regenerateOutline_endpoint projectName)
                 (requestInit token ?opts) = Responded r"
    and nf: "status r = 404"
    by blast+
  show "regenerateOutline env store nowMs projectName bodyText
           = Inl (ApiError (''Project not found. ''
                            @ (if responseText r = []
                               then ''The requested resource does not exist.''
                               else responseText r))
                    404 (Some (responseText r)))"
    using makeRequest_404 [OF tok resp nf]
    by (simp add: regenerateOutline_def regenerateOutline_project)
qed

theorem own_endpoints_not_found_witness:
  "listProjects (exampleApiEnv (exampleResponse [])) exampleLoggedIn 1700000000000
     (Some ''in progress'')
   = Inl (ApiError ''Resource not found. The requested resource does not exist.'' 404 (Some []))
   \<and> regenerateOutline (exampleApiEnv (exampleResponse [])) exampleLoggedIn 1700000000000
     ''my blog'' ''{}''
   = Inl (ApiError ''Project not found. The requested resource does not exist.'' 404 (Some []))"
proof -
  note t = own_endpoints_not_found [of "Some ''in progress''" "''my blog''"]
  have a: "listProjects (exampleApiEnv (exampleResponse [])) exampleLoggedIn 1700000000000
     (Some ''in progress'')
   = Inl (ApiError ''Resource not found. The requested resource does not exist.'' 404 (Some []))"
    using t [THEN conjunct2, THEN conjunct2, THEN conjunct1, rule_format,
             of exampleLoggedIn 1700000000000 "''a''" "exampleApiEnv (exampleResponse [])"
                "exampleResponse []"]
    by (simp add: ex_token ex_fetch exampleResponse_def)
  have b: "regenerateOutline (exampleApiEnv (exampleResponse [])) exampleLoggedIn 1700000000000
     ''my blog'' ''{}''
   = Inl (ApiError ''Project not found. The requested resource does not exist.'' 404 (Some []))"
    using t [THEN conjunct2, THEN conjunct2, THEN conjunct2, rule_format,
             of exampleLoggedIn 1700000000000 "''a''" "exampleApiEnv (exampleResponse [])"
                "''{}''" "exampleResponse []"]
    by (simp add: ex_token ex_fetch exampleResponse_def)
  show ?thesis using a b by simp
qed

end